theory Spec2Isabelle
  imports Complex_Main "HOL-Library.Word"
begin

section \<open>JavaScript strings and \<open>String.prototype.trim\<close>\<close>

text \<open>
  A JavaScript string is a sequence of 16-bit code units. The draft text is modelled that
  way, because \<open>trim\<close> strips code points that do not fit a byte. Every code point
  that \<open>trim\<close> strips lies in the Basic Multilingual Plane and is no surrogate, so the
  test works code unit by code unit.
\<close>

type_synonym code_unit = "16 word"
type_synonym jsstring = "code_unit list"

text \<open>An ASCII literal of the source, as code units.\<close>

definition js :: "string \<Rightarrow> jsstring" where
  "js cs = map (\<lambda>c. of_nat (of_char c)) cs"

text \<open>
  ECMAScript \<open>WhiteSpace\<close>: TAB, VT, FF, ZWNBSP and the Unicode category Zs
  (SPACE, NO-BREAK SPACE, U+1680, U+2000 to U+200A, U+202F, U+205F, U+3000).
\<close>

definition isWhiteSpace :: "code_unit \<Rightarrow> bool" where
  "isWhiteSpace c \<longleftrightarrow>
     c = 0x0009 \<or> c = 0x000B \<or> c = 0x000C \<or> c = 0xFEFF \<or>
     c = 0x0020 \<or> c = 0x00A0 \<or> c = 0x1680 \<or> (0x2000 \<le> c \<and> c \<le> 0x200A) \<or>
     c = 0x202F \<or> c = 0x205F \<or> c = 0x3000"

text \<open>ECMAScript \<open>LineTerminator\<close>: LF, CR, LINE SEPARATOR, PARAGRAPH SEPARATOR.\<close>

definition isLineTerminator :: "code_unit \<Rightarrow> bool" where
  "isLineTerminator c \<longleftrightarrow> c = 0x000A \<or> c = 0x000D \<or> c = 0x2028 \<or> c = 0x2029"

text \<open>What \<open>trim\<close> strips: white space and line terminators.\<close>

definition whitespace :: "code_unit \<Rightarrow> bool" where
  "whitespace c \<longleftrightarrow> isWhiteSpace c \<or> isLineTerminator c"

definition trim :: "jsstring \<Rightarrow> jsstring" where
  "trim s = rev (dropWhile whitespace (rev (dropWhile whitespace s)))"

text \<open>The two kinds of draft the specification quantifies over.\<close>

definition whitespace_only :: "jsstring \<Rightarrow> bool" where
  "whitespace_only s = list_all whitespace s"

definition whitespace_free :: "jsstring \<Rightarrow> bool" where
  "whitespace_free s = (\<not> list_ex whitespace s)"

section \<open>The prompt input (\<open>PromptInput\<close> of \<open>PromptPage.tsx\<close>)\<close>

text \<open>
  The inline \<open>style.height\<close> of the textarea: \<open>'auto'\<close> or a pixel length. Before the
  first effect the inline height is unset, which lays out as \<open>auto\<close>.
\<close>

datatype css_height = Auto | Px nat

text \<open>The DOM textarea behind \<open>textareaRef\<close>; the component touches only its height.\<close>

record textarea =
  style_height :: css_height

text \<open>
  The component's state: \<open>input\<close> is the \<open>useState\<close> cell, \<open>textareaRef\<close> the
  ref's \<open>current\<close> (\<open>None\<close> is \<open>null\<close>), and \<open>onSend_calls\<close> the arguments the
  \<open>onSend\<close> prop has been called with, oldest first.
\<close>

record prompt_state =
  input :: jsstring
  textareaRef :: "textarea option"
  onSend_calls :: "jsstring list"

text \<open>
  \<open>handleSubmit\<close>: a string is truthy when it is not empty. The three statements of
  the branch are the call of \<open>onSend\<close>, \<open>setInput('')\<close> and the height reset.
\<close>

definition handleSubmit :: "prompt_state \<Rightarrow> prompt_state" where
  "handleSubmit s =
     (if trim (input s) \<noteq> [] then
        s\<lparr>onSend_calls := onSend_calls s @ [input s],
          input := [],
          textareaRef :=
            (case textareaRef s of
               None \<Rightarrow> None
             | Some el \<Rightarrow> Some (el\<lparr>style_height := Auto\<rparr>))\<rparr>
      else s)"

record key_event =
  key :: jsstring
  shiftKey :: bool

text \<open>
  \<open>handleKeyDown\<close> returns whether it called \<open>preventDefault\<close>, and the new state.
\<close>

definition handleKeyDown :: "key_event \<Rightarrow> prompt_state \<Rightarrow> bool \<times> prompt_state" where
  "handleKeyDown e s =
     (if key e = js ''Enter'' \<and> \<not> shiftKey e then (True, handleSubmit s)
      else (False, s))"

text \<open>
  The body of the \<open>useEffect\<close>. \<open>scrollHeight\<close> is the layout engine's measurement
  of the element, given its inline style and the text it shows; it is a parameter.
\<close>

definition autoResize :: "(textarea \<Rightarrow> jsstring \<Rightarrow> nat) \<Rightarrow> prompt_state \<Rightarrow> prompt_state" where
  "autoResize scrollHeight s =
     (case textareaRef s of
        None \<Rightarrow> s
      | Some el \<Rightarrow>
          let el1 = el\<lparr>style_height := Auto\<rparr>;
              el2 = el1\<lparr>style_height := Px (min (scrollHeight el1 (input s)) 200)\<rparr>
          in s\<lparr>textareaRef := Some el2\<rparr>)"

text \<open>
  The dependency list \<open>[input]\<close>: after a render the effect runs when \<open>input\<close> differs
  from the previous render's.
\<close>

definition rerender :: "(textarea \<Rightarrow> jsstring \<Rightarrow> nat) \<Rightarrow> jsstring \<Rightarrow> prompt_state \<Rightarrow> prompt_state" where
  "rerender scrollHeight previous s =
     (if input s \<noteq> previous then autoResize scrollHeight s else s)"

text \<open>\<open>onChange\<close>: \<open>setInput(e.target.value)\<close>, then the render.\<close>

definition onChange :: "(textarea \<Rightarrow> jsstring \<Rightarrow> nat) \<Rightarrow> jsstring \<Rightarrow> prompt_state \<Rightarrow> prompt_state" where
  "onChange scrollHeight v s = rerender scrollHeight (input s) (s\<lparr>input := v\<rparr>)"

definition hasContent :: "prompt_state \<Rightarrow> bool" where
  "hasContent s = (trim (input s) \<noteq> [])"

text \<open>
  The send button as rendered: its \<open>disabled\<close> attribute and the arguments of \<open>cn\<close>
  that make its class name, in order.
\<close>

record send_button =
  disabled :: bool
  cn_args :: "string list"

definition sendButton :: "prompt_state \<Rightarrow> send_button" where
  "sendButton s =
     \<lparr>disabled = (\<not> hasContent s),
      cn_args =
        [''flex h-9 w-9 items-center justify-center rounded-full transition-all'',
         if hasContent s
         then ''bg-gradient-to-r from-purple-500 to-pink-500 text-white hover:from-purple-600 hover:to-pink-600 shadow-lg''
         else ''bg-white/10 text-white/40 cursor-not-allowed'']\<rparr>"

subsection \<open>The browser around the component\<close>

text \<open>
  What reaches the component: a key press in the textarea, with the selection
  (\<open>selectionStart\<close>, \<open>selectionEnd\<close>) at that moment; any other edit (paste, deletion,
  input method), reported through \<open>onChange\<close> with the new value; a click on the send
  button.
\<close>

datatype event = KeyDown key_event nat nat | Change jsstring | Click

text \<open>
  The default action of a key press that the handler did not prevent: Enter inserts a
  line feed, a key whose \<open>key\<close> is one code unit inserts that code unit, and a named
  key inserts nothing (its edit, if any, is a \<open>Change\<close>). The text replaces the
  selection, which the browser keeps within the text. A \<open>KeyDown\<close> is a press without
  Control, Alt or Meta; the handler reads \<open>key\<close> and \<open>shiftKey\<close> only.
\<close>

definition default_text :: "key_event \<Rightarrow> jsstring option" where
  "default_text e =
     (if key e = js ''Enter'' then Some [0x000A]
      else if length (key e) = 1 then Some (key e)
      else None)"

definition insert_text :: "nat \<Rightarrow> nat \<Rightarrow> jsstring \<Rightarrow> jsstring \<Rightarrow> jsstring" where
  "insert_text a b t v = take a v @ t @ drop b v"

text \<open>
  One event: the handler, the render it causes, and then the default action with its
  \<open>onChange\<close>. A disabled button receives no click.
\<close>

fun fire :: "(textarea \<Rightarrow> jsstring \<Rightarrow> nat) \<Rightarrow> event \<Rightarrow> prompt_state \<Rightarrow> prompt_state" where
  "fire scrollHeight (KeyDown e a b) s =
     (let (prevented, s1) = handleKeyDown e s;
          s2 = rerender scrollHeight (input s) s1
      in if prevented then s2
         else (case default_text e of
                 None \<Rightarrow> s2
               | Some t \<Rightarrow> onChange scrollHeight (insert_text a b t (input s2)) s2))"
| "fire scrollHeight (Change v) s = onChange scrollHeight v s"
| "fire scrollHeight Click s =
     (if disabled (sendButton s) then s
      else rerender scrollHeight (input s) (handleSubmit s))"

definition run :: "(textarea \<Rightarrow> jsstring \<Rightarrow> nat) \<Rightarrow> event list \<Rightarrow> prompt_state \<Rightarrow> prompt_state" where
  "run scrollHeight es s = foldl (\<lambda>s e. fire scrollHeight e s) s es"

text \<open>The component after mounting: empty draft, ref attached, the effect run once.\<close>

definition mount :: "(textarea \<Rightarrow> jsstring \<Rightarrow> nat) \<Rightarrow> prompt_state" where
  "mount scrollHeight =
     autoResize scrollHeight
       \<lparr>input = [], textareaRef = Some \<lparr>style_height = Auto\<rparr>, onSend_calls = []\<rparr>"

text \<open>
  The height the effect leaves: the scroll height of the current draft, measured with
  the inline height at \<open>auto\<close>, capped at 200.
\<close>

definition fitted :: "(textarea \<Rightarrow> jsstring \<Rightarrow> nat) \<Rightarrow> prompt_state \<Rightarrow> bool" where
  "fitted scrollHeight s =
     (textareaRef s =
        Some \<lparr>style_height = Px (min (scrollHeight \<lparr>style_height = Auto\<rparr> (input s)) 200)\<rparr>)"

text \<open>A key press of one character, and of Enter.\<close>

definition press :: "char \<Rightarrow> bool \<Rightarrow> nat \<Rightarrow> event" where
  "press c shift caret = KeyDown \<lparr>key = js [c], shiftKey = shift\<rparr> caret caret"

definition press_enter :: "bool \<Rightarrow> nat \<Rightarrow> nat \<Rightarrow> event" where
  "press_enter shift a b = KeyDown \<lparr>key = js ''Enter'', shiftKey = shift\<rparr> a b"

text \<open>Typing \<open>Hello\<close> into the empty field, the caret following the text.\<close>

definition type_hello :: "event list" where
  "type_hello =
     [press CHR ''H'' True 0, press CHR ''e'' False 1, press CHR ''l'' False 2,
      press CHR ''l'' False 3, press CHR ''o'' False 4]"

text \<open>A layout engine for the examples: 40 units of padding and 26 per line.\<close>

definition lines_layout :: "textarea \<Rightarrow> jsstring \<Rightarrow> nat" where
  "lines_layout el v = 40 + 26 * (1 + length (filter (\<lambda>c. c = 0x000A) v))"

text \<open>Example states and inputs: a draft of white space only, and a draft of one word.\<close>

definition blank_state :: prompt_state where
  "blank_state =
     \<lparr>input = js ''  '' @ [0x000A, 0x3000, 0x0009],
      textareaRef = Some \<lparr>style_height = Px 92\<rparr>,
      onSend_calls = [js ''ink'']\<rparr>"

definition ink_state :: prompt_state where
  "ink_state =
     \<lparr>input = js ''ink'', textareaRef = Some \<lparr>style_height = Px 66\<rparr>, onSend_calls = []\<rparr>"

text \<open>Seven empty lines: taller than the cap under \<open>lines_layout\<close>.\<close>

definition tall_text :: jsstring where
  "tall_text = [0x0A, 0x0A, 0x0A, 0x0A, 0x0A, 0x0A, 0x0A]"

text \<open>
  A session: type \<open>Hello\<close>, press Enter, press Enter again on the emptied field, click
  the send button, replace the draft by two spaces, press Enter.
\<close>

definition hello_session :: "event list" where
  "hello_session =
     type_hello @
     [press_enter False 5 5, press_enter False 0 0, Click, Change (js ''  ''),
      press_enter False 2 2]"

section \<open>The decorative shape (\<open>ElegantShape\<close>) and its place in the page\<close>

text \<open>
  The class-name utility \<open>cn\<close> is \<open>twMerge(clsx(inputs))\<close>: two packages from outside
  the repository. Class names are therefore kept as the arguments handed to \<open>cn\<close>.
\<close>

text \<open>
  Rendered markup, as far as pointer events go: an element's tag, the fragments that
  make its class name (the arguments of \<open>cn\<close>, or the one literal; \<open>None\<close> is an
  \<open>undefined\<close> prop), its inline style, the event-handler props it binds, and its
  children. The animation props of \<open>motion.div\<close> (\<open>initial\<close>, \<open>animate\<close>,
  \<open>transition\<close>) drive opacity and transform only and are not part of it.
\<close>

datatype element =
  Element (tag: string) (class_args: "string option list") (style: "(string \<times> int) list")
    (handlers: "string list") (children: "element list")

record shape_props =
  className :: "string option"
  delay :: rat
  width :: int
  height :: int
  rotate_prop :: int
  gradient :: string

text \<open>The defaults of the destructured props.\<close>

definition default_shape_props :: shape_props where
  "default_shape_props =
     \<lparr>className = None, delay = 0, width = 400, height = 100, rotate_prop = 0,
      gradient = ''from-white/[0.08]''\<rparr>"

definition ElegantShape :: "shape_props \<Rightarrow> element" where
  "ElegantShape p =
     Element ''motion.div'' [Some ''absolute'', className p] [] []
       [Element ''motion.div'' [Some ''relative'']
          [(''width'', width p), (''height'', height p)] []
          [Element ''div''
             [Some ''absolute inset-0 rounded-full'',
              Some ''bg-gradient-to-r to-transparent'',
              Some (gradient p),
              Some ''backdrop-blur-[2px] border-2 border-white/[0.15]'',
              Some ''shadow-[0_8px_32px_0_rgba(255,255,255,0.1)]'',
              Some ''after:absolute after:inset-0 after:rounded-full'',
              Some ''after:bg-[radial-gradient(circle_at_50%_50%,rgba(255,255,255,0.2),transparent_70%)]'']
             [] [] []]]"

text \<open>The four shapes \<open>PromptPage\<close> instantiates, in order.\<close>

definition page_shapes :: "shape_props list" where
  "page_shapes =
     [\<lparr>className = Some ''left-[-10%] md:left-[-5%] top-[15%] md:top-[20%]'', delay = 3 / 10,
       width = 600, height = 140, rotate_prop = 12, gradient = ''from-purple-500/[0.15]''\<rparr>,
      \<lparr>className = Some ''right-[-5%] md:right-[0%] top-[70%] md:top-[75%]'', delay = 5 / 10,
       width = 500, height = 120, rotate_prop = - 15, gradient = ''from-pink-500/[0.15]''\<rparr>,
      \<lparr>className = Some ''left-[5%] md:left-[10%] bottom-[5%] md:bottom-[10%]'', delay = 4 / 10,
       width = 300, height = 80, rotate_prop = - 8, gradient = ''from-violet-500/[0.15]''\<rparr>,
      \<lparr>className = Some ''right-[15%] md:right-[20%] top-[10%] md:top-[15%]'', delay = 6 / 10,
       width = 200, height = 60, rotate_prop = 20, gradient = ''from-fuchsia-500/[0.15]''\<rparr>]"

text \<open>The class names of the two elements of the page that enclose the shapes.\<close>

definition page_root_class :: string where
  "page_root_class =
     ''relative min-h-screen w-full flex items-center justify-center overflow-hidden bg-[#030303]''"

definition shapes_layer_class :: string where
  "shapes_layer_class = ''absolute inset-0 overflow-hidden''"

text \<open>The classes of a class string: its pieces between spaces.\<close>

fun split_acc :: "string \<Rightarrow> string \<Rightarrow> string list" where
  "split_acc cur [] = (if cur = [] then [] else [cur])"
| "split_acc cur (c # cs) =
     (if c = CHR '' '' then (if cur = [] then split_acc [] cs else cur # split_acc [] cs)
      else split_acc (cur @ [c]) cs)"

definition split_classes :: "string \<Rightarrow> string list" where
  "split_classes s = split_acc [] s"

text \<open>
  Whether a class name switches pointer events off: Tailwind's \<open>pointer-events-none\<close>
  among the classes of its fragments.
\<close>

definition classes_of :: "string option list \<Rightarrow> string list" where
  "classes_of fragments =
     concat (map (\<lambda>f. case f of None \<Rightarrow> [] | Some c \<Rightarrow> split_classes c) fragments)"

definition pointer_events_none :: "string option list \<Rightarrow> bool" where
  "pointer_events_none fragments = (''pointer-events-none'' \<in> set (classes_of fragments))"

text \<open>All elements of a rendered tree, the root first.\<close>

fun elements :: "element \<Rightarrow> element list" where
  "elements (Element t cs st hs ch) = Element t cs st hs ch # concat (map elements ch)"

text \<open>
  The elements of a tree that take pointer events. The CSS property \<open>pointer-events\<close>
  is inherited: an element is out when it or an ancestor has switched it off. The flag
  says whether an ancestor has.
\<close>

fun pointer_targets :: "bool \<Rightarrow> element \<Rightarrow> element list" where
  "pointer_targets inherited (Element t cs st hs ch) =
     (let off = (inherited \<or> pointer_events_none cs)
      in (if off then [] else [Element t cs st hs ch]) @ concat (map (pointer_targets off) ch))"

text \<open>Whether the shapes inherit \<open>pointer-events: none\<close> from the page around them.\<close>

definition shapes_inherit_none :: bool where
  "shapes_inherit_none =
     (pointer_events_none [Some page_root_class] \<or> pointer_events_none [Some shapes_layer_class])"

text \<open>A tree is out of the pointer's reach when none of its elements takes pointer events.\<close>

definition non_interactive :: "bool \<Rightarrow> element \<Rightarrow> bool" where
  "non_interactive inherited el = (pointer_targets inherited el = [])"

section \<open>Facts about \<open>trim\<close>\<close>

lemma trim_empty_iff: "trim s = [] \<longleftrightarrow> (\<forall>c\<in>set s. whitespace c)"
proof
  assume "trim s = []"
  then have "dropWhile whitespace (rev (dropWhile whitespace s)) = []"
    by (simp add: trim_def)
  then have rest: "\<forall>c\<in>set (dropWhile whitespace s). whitespace c"
    by simp
  have "dropWhile whitespace s = []"
  proof (rule ccontr)
    assume ne: "dropWhile whitespace s \<noteq> []"
    then have "\<not> whitespace (hd (dropWhile whitespace s))"
      by (rule hd_dropWhile)
    moreover have "hd (dropWhile whitespace s) \<in> set (dropWhile whitespace s)"
      using ne by simp
    ultimately show False
      using rest by blast
  qed
  then show "\<forall>c\<in>set s. whitespace c"
    by simp
next
  assume "\<forall>c\<in>set s. whitespace c"
  then have d: "dropWhile whitespace s = []"
    by simp
  show "trim s = []"
    by (simp only: trim_def d rev.simps dropWhile.simps)
qed

lemma whitespace_only_trim: "whitespace_only s \<longleftrightarrow> trim s = []"
  by (simp add: whitespace_only_def trim_empty_iff list_all_iff)

lemma whitespace_free_trim: "whitespace_free s \<Longrightarrow> s \<noteq> [] \<Longrightarrow> trim s \<noteq> []"
  by (auto simp: whitespace_free_def trim_empty_iff list_ex_iff neq_Nil_conv)

section \<open>Facts about submission\<close>

lemma handleSubmit_sent:
  "trim (input s) \<noteq> [] \<Longrightarrow>
     onSend_calls (handleSubmit s) = onSend_calls s @ [input s] \<and> input (handleSubmit s) = []"
  by (simp add: handleSubmit_def)

lemma handleSubmit_guard: "trim (input s) = [] \<Longrightarrow> handleSubmit s = s"
  by (simp add: handleSubmit_def)

lemma autoResize_keeps: "input (autoResize sh s) = input s \<and> onSend_calls (autoResize sh s) = onSend_calls s"
  by (simp add: autoResize_def Let_def split: option.splits)

lemma rerender_keeps: "input (rerender sh v s) = input s \<and> onSend_calls (rerender sh v s) = onSend_calls s"
  by (simp add: rerender_def autoResize_keeps)

lemma fire_enter:
  "fire sh (press_enter False a b) s = rerender sh (input s) (handleSubmit s)"
  by (simp add: press_enter_def handleKeyDown_def)

lemma fire_click:
  "fire sh Click s = rerender sh (input s) (handleSubmit s)"
proof (cases "trim (input s) = []")
  case True
  then show ?thesis
    by (simp add: sendButton_def hasContent_def handleSubmit_guard rerender_def)
next
  case False
  then show ?thesis
    by (simp add: sendButton_def hasContent_def)
qed

lemma fire_shift_enter:
  "fire sh (press_enter True a b) s = onChange sh (insert_text a b [0x000A] (input s)) s"
  by (simp add: press_enter_def handleKeyDown_def rerender_def default_text_def)

lemma onChange_keeps: "input (onChange sh v s) = v \<and> onSend_calls (onChange sh v s) = onSend_calls s"
  by (simp add: onChange_def rerender_keeps)

lemma hello_typed:
  "run sh type_hello (mount sh) =
     \<lparr>input = js ''Hello'',
      textareaRef = Some \<lparr>style_height = Px (min (sh \<lparr>style_height = Auto\<rparr> (js ''Hello'')) 200)\<rparr>,
      onSend_calls = []\<rparr>"
  by (simp add: run_def type_hello_def mount_def press_def js_def handleKeyDown_def default_text_def
      insert_text_def onChange_def rerender_def autoResize_def Let_def)

lemma trim_hello: "trim (js ''Hello'') = js ''Hello''"
  by (simp add: js_def trim_def whitespace_def isWhiteSpace_def isLineTerminator_def)

lemma run_snoc: "run sh (es @ [e]) s = fire sh e (run sh es s)"
  by (simp add: run_def)

lemma fire_enter_guard: "trim (input s) = [] \<Longrightarrow> fire sh (press_enter False a b) s = s"
  by (simp add: fire_enter handleSubmit_guard rerender_def del: fire.simps)

lemma fire_click_guard: "trim (input s) = [] \<Longrightarrow> fire sh Click s = s"
  by (simp add: sendButton_def hasContent_def)

section \<open>The height of the field\<close>

lemma textarea_height: "(el::textarea)\<lparr>style_height := h\<rparr> = \<lparr>style_height = h\<rparr>"
  by (cases el) simp

lemma autoResize_fitted: "textareaRef s \<noteq> None \<Longrightarrow> fitted sh (autoResize sh s)"
  by (auto simp: fitted_def autoResize_def Let_def textarea_height)

lemma autoResize_ref: "textareaRef (autoResize sh s) = None \<longleftrightarrow> textareaRef s = None"
  by (simp add: autoResize_def Let_def split: option.splits)

lemma handleSubmit_ref: "textareaRef (handleSubmit s) = None \<longleftrightarrow> textareaRef s = None"
  by (simp add: handleSubmit_def split: option.splits)

lemma rerender_changed:
  "textareaRef s \<noteq> None \<Longrightarrow> input s \<noteq> v \<Longrightarrow> fitted sh (rerender sh v s)"
  by (simp add: rerender_def autoResize_fitted)

lemma rerender_same: "input s = v \<Longrightarrow> rerender sh v s = s"
  by (simp add: rerender_def)

lemma onChange_changed:
  "textareaRef s \<noteq> None \<Longrightarrow> v \<noteq> input s \<Longrightarrow> fitted sh (onChange sh v s)"
  by (simp add: onChange_def rerender_changed)

lemma onChange_same: "onChange sh (input s) s = s"
  by (simp add: onChange_def rerender_def)

lemma fire_key:
  "fire sh (KeyDown e a b) s =
     (if key e = js ''Enter'' \<and> \<not> shiftKey e then rerender sh (input s) (handleSubmit s)
      else case default_text e of
             None \<Rightarrow> s
           | Some t \<Rightarrow> onChange sh (insert_text a b t (input s)) s)"
  by (simp add: handleKeyDown_def rerender_def)

lemma fire_changed:
  assumes "textareaRef s \<noteq> None" and "input (fire sh e s) \<noteq> input s"
  shows "fitted sh (fire sh e s)"
proof (cases e)
  case (KeyDown k a b)
  show ?thesis
  proof (cases "key k = js ''Enter'' \<and> \<not> shiftKey k")
    case True
    with assms KeyDown show ?thesis
      by (simp add: fire_key rerender_keeps rerender_changed handleSubmit_ref del: fire.simps)
  next
    case False
    with assms KeyDown show ?thesis
      by (auto simp: fire_key onChange_keeps onChange_changed simp del: fire.simps
          split: option.splits)
  qed
next
  case (Change v)
  with assms show ?thesis
    by (simp add: onChange_keeps onChange_changed)
next
  case Click
  with assms show ?thesis
    by (simp add: fire_click rerender_keeps rerender_changed handleSubmit_ref del: fire.simps)
qed

lemma fire_unchanged:
  assumes "input (fire sh e s) = input s"
  shows "fire sh e s = s"
proof (cases e)
  case (KeyDown k a b)
  show ?thesis
  proof (cases "key k = js ''Enter'' \<and> \<not> shiftKey k")
    case True
    show ?thesis
    proof (cases "trim (input s) = []")
      case t: True
      with True KeyDown show ?thesis
        by (simp add: fire_key handleSubmit_guard rerender_def del: fire.simps)
    next
      case f: False
      have "trim [] = ([]::jsstring)"
        by (simp add: trim_def)
      with f have "input s \<noteq> []"
        by auto
      with assms True KeyDown f show ?thesis
        by (simp add: fire_key rerender_keeps handleSubmit_sent del: fire.simps)
    qed
  next
    case False
    with assms KeyDown show ?thesis
      by (auto simp: fire_key onChange_keeps onChange_same simp del: fire.simps
          split: option.splits)
  qed
next
  case (Change v)
  with assms show ?thesis
    by (auto simp: onChange_keeps onChange_same)
next
  case Click
  show ?thesis
  proof (cases "trim (input s) = []")
    case True
    then show ?thesis
      using Click by (simp add: sendButton_def hasContent_def)
  next
    case False
    have "trim [] = ([]::jsstring)"
      by (simp add: trim_def)
    with False have "input s \<noteq> []"
      by auto
    with assms Click False show ?thesis
      by (simp add: fire_click rerender_keeps handleSubmit_sent del: fire.simps)
  qed
qed

lemma fire_ref: "textareaRef (fire sh e s) = None \<longleftrightarrow> textareaRef s = None"
proof (cases e)
  case (KeyDown k a b)
  then show ?thesis
    by (simp add: fire_key rerender_def onChange_def autoResize_ref handleSubmit_ref
        del: fire.simps split: option.splits)
next
  case (Change v)
  then show ?thesis
    by (simp add: onChange_def rerender_def autoResize_ref)
next
  case Click
  then show ?thesis
    by (simp add: fire_click rerender_def autoResize_ref handleSubmit_ref del: fire.simps)
qed

lemma fire_fitted: "fitted sh s \<Longrightarrow> fitted sh (fire sh e s)"
proof (cases "input (fire sh e s) = input s")
  case True
  assume "fitted sh s"
  with fire_unchanged [OF True] show ?thesis
    by simp
next
  case False
  assume "fitted sh s"
  then have "textareaRef s \<noteq> None"
    by (simp add: fitted_def)
  then show ?thesis
    using False by (rule fire_changed)
qed

lemma mount_fitted: "fitted sh (mount sh)"
  by (simp add: mount_def autoResize_fitted)

lemma run_fitted: "fitted sh s \<Longrightarrow> fitted sh (run sh es s)"
proof (induction es rule: rev_induct)
  case Nil
  then show ?case by (simp add: run_def)
next
  case (snoc e es)
  then show ?case
    by (simp add: run_snoc fire_fitted del: fire.simps)
qed

section \<open>The calls of \<open>onSend\<close> over a run\<close>

lemma fire_calls:
  "list_all (\<lambda>t. trim t \<noteq> []) (onSend_calls s) \<Longrightarrow>
   list_all (\<lambda>t. trim t \<noteq> []) (onSend_calls (fire sh e s))"
proof (cases e)
  case (KeyDown k a b)
  assume "list_all (\<lambda>t. trim t \<noteq> []) (onSend_calls s)"
  with KeyDown show ?thesis
    by (cases "trim (input s) = []")
       (auto simp: fire_key rerender_keeps onChange_keeps handleSubmit_guard handleSubmit_sent
          simp del: fire.simps split: option.splits)
next
  case (Change v)
  assume "list_all (\<lambda>t. trim t \<noteq> []) (onSend_calls s)"
  with Change show ?thesis
    by (simp add: onChange_keeps)
next
  case Click
  assume "list_all (\<lambda>t. trim t \<noteq> []) (onSend_calls s)"
  with Click show ?thesis
    by (cases "trim (input s) = []")
       (simp_all add: fire_click rerender_keeps handleSubmit_guard handleSubmit_sent del: fire.simps)
qed

lemma run_calls:
  "list_all (\<lambda>t. trim t \<noteq> []) (onSend_calls s) \<Longrightarrow>
   list_all (\<lambda>t. trim t \<noteq> []) (onSend_calls (run sh es s))"
proof (induction es rule: rev_induct)
  case Nil
  then show ?case by (simp add: run_def)
next
  case (snoc e es)
  then show ?case
    by (simp add: run_snoc fire_calls del: fire.simps)
qed

lemma mount_calls: "onSend_calls (mount sh) = []"
  by (simp add: mount_def autoResize_keeps)

lemma hello_session_run:
  "run sh hello_session (mount sh) =
     \<lparr>input = js ''  '',
      textareaRef = Some \<lparr>style_height = Px (min (sh \<lparr>style_height = Auto\<rparr> (js ''  '')) 200)\<rparr>,
      onSend_calls = [js ''Hello'']\<rparr>"
  by (simp add: run_def hello_session_def type_hello_def mount_def press_def press_enter_def js_def
      handleKeyDown_def handleSubmit_def default_text_def insert_text_def onChange_def rerender_def
      autoResize_def sendButton_def hasContent_def Let_def trim_def whitespace_def isWhiteSpace_def
      isLineTerminator_def)

section \<open>The markup around the shapes\<close>

lemma shapes_inherit: "shapes_inherit_none = False"
  by (simp add: shapes_inherit_none_def pointer_events_none_def classes_of_def split_classes_def
      page_root_class_def shapes_layer_class_def)

section \<open>The claims about the prompt input\<close>

text \<open>
  C1. When the trimmed draft is not empty, a submission calls \<open>onSend\<close> exactly once,
  with the draft as it is (nothing stripped), and leaves the draft empty. This holds for
  \<open>handleSubmit\<close> itself and for both ways of reaching it: Enter without Shift in the
  textarea, whatever the selection, and a click on the send button.
\<close>

theorem submission_sends_raw_draft:
  assumes "trim (input s) \<noteq> []"
  shows "onSend_calls (handleSubmit s) = onSend_calls s @ [input s] \<and>
         input (handleSubmit s) = [] \<and>
         onSend_calls (fire scrollHeight (press_enter False a b) s) = onSend_calls s @ [input s] \<and>
         input (fire scrollHeight (press_enter False a b) s) = [] \<and>
         onSend_calls (fire scrollHeight Click s) = onSend_calls s @ [input s] \<and>
         input (fire scrollHeight Click s) = []"
  using handleSubmit_sent [OF assms]
  by (simp add: fire_enter fire_click rerender_keeps del: fire.simps)

text \<open>
  C1, at a concrete input: after typing \<open>Hello\<close>, Enter or a click sends \<open>Hello\<close>
  once and empties the draft.
\<close>

theorem submission_sends_raw_draft_witness:
  "trim (input (run lines_layout type_hello (mount lines_layout))) \<noteq> [] \<and>
   onSend_calls (fire lines_layout (press_enter False 5 5) (run lines_layout type_hello (mount lines_layout)))
     = [js ''Hello''] \<and>
   input (fire lines_layout (press_enter False 5 5) (run lines_layout type_hello (mount lines_layout))) = [] \<and>
   onSend_calls (fire lines_layout Click (run lines_layout type_hello (mount lines_layout)))
     = [js ''Hello''] \<and>
   input (fire lines_layout Click (run lines_layout type_hello (mount lines_layout))) = []"
proof -
  have ne: "trim (input (run lines_layout type_hello (mount lines_layout))) \<noteq> []"
    by (simp add: hello_typed trim_hello) (simp add: js_def)
  show ?thesis
    using ne submission_sends_raw_draft [OF ne, of lines_layout 5 5]
    by (simp add: hello_typed)
qed

text \<open>
  C2. When the draft consists of white space only (the empty draft included), a submission
  changes nothing at all: \<open>onSend\<close> is not called and the state, the draft with it, stays
  as it was, for \<open>handleSubmit\<close>, for Enter without Shift and for a click (the button is
  disabled then). This guard is the only way a submission does not go through: every other
  draft is sent and cleared.
\<close>

theorem whitespace_draft_not_submitted:
  "(whitespace_only (input s) \<longrightarrow>
      handleSubmit s = s \<and>
      fire scrollHeight (press_enter False a b) s = s \<and>
      fire scrollHeight Click s = s) \<and>
   (\<not> whitespace_only (input s) \<longrightarrow>
      onSend_calls (handleSubmit s) = onSend_calls s @ [input s] \<and> input (handleSubmit s) = [])"
  by (simp add: whitespace_only_trim handleSubmit_guard fire_enter_guard fire_click_guard
      handleSubmit_sent del: fire.simps)

text \<open>C2, at a draft of two spaces, a line feed, an ideographic space and a tab.\<close>

theorem whitespace_draft_not_submitted_witness:
  "whitespace_only (input blank_state) \<and>
   handleSubmit blank_state = blank_state \<and>
   fire lines_layout (press_enter False 2 2) blank_state = blank_state \<and>
   fire lines_layout Click blank_state = blank_state \<and>
   onSend_calls blank_state = [js ''ink'']"
proof -
  have ws: "whitespace_only (input blank_state)"
    by (simp add: blank_state_def whitespace_only_def js_def whitespace_def isWhiteSpace_def
        isLineTerminator_def)
  show ?thesis
    using ws whitespace_draft_not_submitted [of blank_state lines_layout 2 2]
    by (simp add: blank_state_def del: fire.simps)
qed

text \<open>
  C3. Enter without Shift makes \<open>handleKeyDown\<close> call \<open>preventDefault\<close> and submit, so
  the whole key press is the submission and nothing is inserted. Enter with Shift is left
  to the browser: no call of \<open>preventDefault\<close>, no call of \<open>onSend\<close>, and the default
  action puts a line feed in place of the selection. Typing \<open>Hello\<close> and then pressing
  Shift and Enter leaves no call of \<open>onSend\<close> and the draft \<open>Hello\<close> followed by a
  line feed.
\<close>

theorem enter_submits_shift_enter_breaks_line:
  "handleKeyDown \<lparr>key = js ''Enter'', shiftKey = False\<rparr> s = (True, handleSubmit s) \<and>
   fire scrollHeight (press_enter False a b) s = rerender scrollHeight (input s) (handleSubmit s) \<and>
   handleKeyDown \<lparr>key = js ''Enter'', shiftKey = True\<rparr> s = (False, s) \<and>
   onSend_calls (fire scrollHeight (press_enter True a b) s) = onSend_calls s \<and>
   input (fire scrollHeight (press_enter True a b) s) = take a (input s) @ [0x000A] @ drop b (input s) \<and>
   onSend_calls (run scrollHeight (type_hello @ [press_enter True 5 5]) (mount scrollHeight)) = [] \<and>
   input (run scrollHeight (type_hello @ [press_enter True 5 5]) (mount scrollHeight)) = js ''Hello'' @ [0x000A]"
  by (simp add: handleKeyDown_def fire_enter fire_shift_enter onChange_keeps insert_text_def run_snoc
      hello_typed del: fire.simps) (simp add: js_def)

text \<open>C3, under the example layout and on the white-space draft with a selection.\<close>

theorem enter_submits_shift_enter_breaks_line_witness:
  "onSend_calls (run lines_layout (type_hello @ [press_enter True 5 5]) (mount lines_layout)) = [] \<and>
   input (run lines_layout (type_hello @ [press_enter True 5 5]) (mount lines_layout))
     = [0x48, 0x65, 0x6C, 0x6C, 0x6F, 0x0A] \<and>
   input (fire lines_layout (press_enter True 1 3) blank_state) = [0x20, 0x0A, 0x3000, 0x0009] \<and>
   onSend_calls (fire lines_layout (press_enter True 1 3) blank_state) = [js ''ink'']"
  using enter_submits_shift_enter_breaks_line [of blank_state lines_layout 1 3]
  by (simp add: blank_state_def js_def del: fire.simps)

text \<open>
  C4. The send button is enabled exactly when the trimmed draft is not empty. Its class
  name gets the muted fragment when the trimmed draft is empty and the emphasised one
  otherwise, and the rendered button depends on the state through the trimmed draft only.
\<close>

theorem send_enabled_iff_trimmed_nonempty:
  "(\<not> disabled (sendButton s)) = (trim (input s) \<noteq> []) \<and>
   cn_args (sendButton s) =
     [''flex h-9 w-9 items-center justify-center rounded-full transition-all'',
      if trim (input s) = [] then ''bg-white/10 text-white/40 cursor-not-allowed''
      else ''bg-gradient-to-r from-purple-500 to-pink-500 text-white hover:from-purple-600 hover:to-pink-600 shadow-lg''] \<and>
   (trim (input s) = trim (input s') \<longrightarrow> sendButton s = sendButton s')"
  by (simp add: sendButton_def hasContent_def)

text \<open>
  C4, at three states: disabled on the white-space draft and on the empty one, which
  render the same button, and enabled after typing \<open>Hello\<close>.
\<close>

theorem send_enabled_iff_trimmed_nonempty_witness:
  "disabled (sendButton blank_state) \<and>
   \<not> disabled (sendButton (run lines_layout type_hello (mount lines_layout))) \<and>
   trim (input blank_state) = trim (input (mount lines_layout)) \<and>
   sendButton blank_state = sendButton (mount lines_layout)"
proof -
  have a: "trim (input blank_state) = []"
    by (simp add: blank_state_def js_def trim_def whitespace_def isWhiteSpace_def isLineTerminator_def)
  have b: "trim (input (mount lines_layout)) = []"
    by (simp add: mount_def autoResize_def Let_def trim_def)
  have c: "trim (input (run lines_layout type_hello (mount lines_layout))) \<noteq> []"
    by (simp add: hello_typed trim_hello) (simp add: js_def)
  have "disabled (sendButton blank_state) \<and> sendButton blank_state = sendButton (mount lines_layout)"
    using a b send_enabled_iff_trimmed_nonempty [of blank_state "mount lines_layout"]
    by auto
  moreover have "\<not> disabled (sendButton (run lines_layout type_hello (mount lines_layout)))"
    using c send_enabled_iff_trimmed_nonempty [of "run lines_layout type_hello (mount lines_layout)" blank_state]
    by simp
  ultimately show ?thesis
    using a b by auto
qed

text \<open>
  C5, as stated, fails at the empty draft: it contains no white space, and submitting it
  calls \<open>onSend\<close> not at all.
\<close>

theorem empty_draft_not_sent:
  "whitespace_free (input (mount lines_layout)) \<and>
   onSend_calls (handleSubmit (mount lines_layout)) = [] \<and>
   onSend_calls (fire lines_layout (press_enter False 0 0) (mount lines_layout)) = [] \<and>
   onSend_calls (handleSubmit (mount lines_layout)) \<noteq>
     onSend_calls (mount lines_layout) @ [input (mount lines_layout)]"
  by (simp add: mount_def autoResize_def Let_def whitespace_free_def handleSubmit_def trim_def
      press_enter_def handleKeyDown_def rerender_def)

text \<open>
  C5, amended. When the draft is not empty and contains no white space, a submission
  calls \<open>onSend\<close> exactly once with the draft and leaves the draft empty.
\<close>

theorem nonempty_whitespace_free_draft_sent:
  assumes "whitespace_free (input s)" and "input s \<noteq> []"
  shows "onSend_calls (handleSubmit s) = onSend_calls s @ [input s] \<and>
         input (handleSubmit s) = [] \<and>
         onSend_calls (fire scrollHeight (press_enter False a b) s) = onSend_calls s @ [input s] \<and>
         input (fire scrollHeight (press_enter False a b) s) = [] \<and>
         onSend_calls (fire scrollHeight Click s) = onSend_calls s @ [input s] \<and>
         input (fire scrollHeight Click s) = []"
  using handleSubmit_sent [OF whitespace_free_trim [OF assms]]
  by (simp add: fire_enter fire_click rerender_keeps del: fire.simps)

text \<open>C5 amended, at the draft \<open>ink\<close>.\<close>

theorem nonempty_whitespace_free_draft_sent_witness:
  "whitespace_free (input ink_state) \<and> input ink_state \<noteq> [] \<and>
   onSend_calls (fire lines_layout (press_enter False 3 3) ink_state) = [js ''ink''] \<and>
   input (fire lines_layout (press_enter False 3 3) ink_state) = [] \<and>
   onSend_calls (fire lines_layout Click ink_state) = [js ''ink''] \<and>
   input (fire lines_layout Click ink_state) = []"
proof -
  have f: "whitespace_free (input ink_state)"
    by (simp add: ink_state_def whitespace_free_def js_def whitespace_def isWhiteSpace_def
        isLineTerminator_def)
  have n: "input ink_state \<noteq> []"
    by (simp add: ink_state_def js_def)
  show ?thesis
    using f n nonempty_whitespace_free_draft_sent [OF f n, of lines_layout 3 3]
    by (simp add: ink_state_def del: fire.simps)
qed

text \<open>
  C6. Whenever an event changes the draft of a mounted field, the effect leaves the
  inline height at the minimum of 200 and the scroll height of the new draft, measured
  after the height was put back to \<open>auto\<close>; the previous height plays no part, so the
  field shrinks when text goes. The same holds in every state the component reaches
  after mounting, and such a height is never above 200.
\<close>

theorem height_recomputed_after_draft_change:
  "(textareaRef s \<noteq> None \<and> input (fire scrollHeight e s) \<noteq> input s \<longrightarrow>
      textareaRef (fire scrollHeight e s) =
        Some \<lparr>style_height =
          Px (min (scrollHeight \<lparr>style_height = Auto\<rparr> (input (fire scrollHeight e s))) 200)\<rparr>) \<and>
   fitted scrollHeight (run scrollHeight es (mount scrollHeight)) \<and>
   (fitted scrollHeight s \<longrightarrow>
      (\<exists>n\<le>200. map_option style_height (textareaRef s) = Some (Px n)))"
proof -
  have "textareaRef s \<noteq> None \<and> input (fire scrollHeight e s) \<noteq> input s \<longrightarrow>
      fitted scrollHeight (fire scrollHeight e s)"
    using fire_changed by blast
  moreover have "fitted scrollHeight (run scrollHeight es (mount scrollHeight))"
    by (rule run_fitted [OF mount_fitted])
  moreover have "fitted scrollHeight s \<longrightarrow>
      (\<exists>n\<le>200. map_option style_height (textareaRef s) = Some (Px n))"
    by (auto simp: fitted_def)
  ultimately show ?thesis
    unfolding fitted_def by blast
qed

text \<open>
  C6, under the example layout: seven empty lines hit the cap of 200, and replacing them
  by \<open>Hi\<close> brings the height back to 66.
\<close>

theorem height_recomputed_after_draft_change_witness:
  "textareaRef (mount lines_layout) \<noteq> None \<and>
   input (fire lines_layout (Change tall_text) (mount lines_layout)) \<noteq> input (mount lines_layout) \<and>
   textareaRef (fire lines_layout (Change tall_text) (mount lines_layout)) =
     Some \<lparr>style_height = Px 200\<rparr> \<and>
   textareaRef (run lines_layout [Change tall_text, Change (js ''Hi'')] (mount lines_layout)) =
     Some \<lparr>style_height = Px 66\<rparr>"
  using height_recomputed_after_draft_change
    [of "mount lines_layout" lines_layout "Change tall_text" "[Change tall_text, Change (js ''Hi'')]"]
  by (simp add: fitted_def run_def mount_def autoResize_def onChange_def rerender_def Let_def
      tall_text_def js_def lines_layout_def)

section \<open>The claim about the decorative shapes\<close>

text \<open>
  C8, as stated, fails at the first shape of the page: neither its markup nor the
  elements around it switch pointer events off, so it is within the pointer's reach.
\<close>

theorem shape_takes_pointer_events:
  "\<not> non_interactive shapes_inherit_none (ElegantShape (page_shapes ! 0))"
  by (simp add: non_interactive_def shapes_inherit ElegantShape_def page_shapes_def
      pointer_events_none_def classes_of_def split_classes_def)

text \<open>
  C8, amended. A decorative shape binds no event handler on any of its elements,
  whatever its configuration. Its markup does not switch pointer events off: for each of
  the four shapes of the page, all three elements take pointer events.
\<close>

theorem shape_binds_no_handler:
  "(\<forall>e\<in>set (elements (ElegantShape p)). handlers e = []) \<and>
   (\<forall>p\<in>set page_shapes.
      pointer_targets shapes_inherit_none (ElegantShape p) = elements (ElegantShape p) \<and>
      length (elements (ElegantShape p)) = 3)"
  by (simp add: shapes_inherit ElegantShape_def page_shapes_def pointer_events_none_def
      classes_of_def split_classes_def)

text \<open>C8 amended, at the second shape of the page.\<close>

theorem shape_binds_no_handler_witness:
  "page_shapes ! 1 \<in> set page_shapes \<and>
   handlers (ElegantShape (page_shapes ! 1)) = [] \<and>
   length (pointer_targets shapes_inherit_none (ElegantShape (page_shapes ! 1))) = 3"
proof -
  have m: "page_shapes ! 1 \<in> set page_shapes"
    by (simp add: page_shapes_def)
  have r: "ElegantShape (page_shapes ! 1) \<in> set (elements (ElegantShape (page_shapes ! 1)))"
    by (simp add: ElegantShape_def)
  show ?thesis
    using m r shape_binds_no_handler [of "page_shapes ! 1"]
    by auto
qed

section \<open>The claims about sequences of events\<close>

text \<open>
  C9. Whatever the events after mounting, every string \<open>onSend\<close> has been called with
  has a trimmed form that is not empty: it is neither the empty string nor white space
  only.
\<close>

theorem onSend_never_blank:
  "\<forall>t\<in>set (onSend_calls (run scrollHeight es (mount scrollHeight))).
     trim t \<noteq> [] \<and> t \<noteq> [] \<and> \<not> whitespace_only t"
proof -
  have "list_all (\<lambda>t. trim t \<noteq> []) (onSend_calls (run scrollHeight es (mount scrollHeight)))"
    by (rule run_calls) (simp add: mount_calls)
  moreover have "trim t \<noteq> [] \<Longrightarrow> t \<noteq> []" for t :: jsstring
    by (auto simp: trim_def)
  ultimately show ?thesis
    by (auto simp: list_all_iff whitespace_only_trim)
qed

text \<open>
  C9, on the example session: of its four submissions only the first goes through, with
  \<open>Hello\<close>.
\<close>

theorem onSend_never_blank_witness:
  "onSend_calls (run lines_layout hello_session (mount lines_layout)) = [js ''Hello''] \<and>
   trim (js ''Hello'') \<noteq> [] \<and> \<not> whitespace_only (js ''Hello'')"
  using onSend_never_blank [of lines_layout hello_session]
  by (simp add: hello_session_run)

text \<open>
  C10. Enter without Shift always calls \<open>preventDefault\<close>, also when the trimmed draft
  is empty. The draft after the key press is the old draft when that is white space only
  and the empty string otherwise, so no line feed is ever inserted; on a draft of white
  space only the whole state stays as it was.
\<close>

theorem plain_enter_never_breaks_line:
  "fst (handleKeyDown \<lparr>key = js ''Enter'', shiftKey = False\<rparr> s) \<and>
   input (fire scrollHeight (press_enter False a b) s) = (if trim (input s) = [] then input s else []) \<and>
   (trim (input s) = [] \<longrightarrow> fire scrollHeight (press_enter False a b) s = s)"
proof (cases "trim (input s) = []")
  case True
  then show ?thesis
    by (simp add: handleKeyDown_def fire_enter_guard del: fire.simps)
next
  case False
  then show ?thesis
    by (simp add: handleKeyDown_def fire_enter rerender_keeps handleSubmit_sent del: fire.simps)
qed

text \<open>C10, on the white-space draft and on the draft \<open>ink\<close> with everything selected.\<close>

theorem plain_enter_never_breaks_line_witness:
  "trim (input blank_state) = [] \<and>
   fire lines_layout (press_enter False 2 2) blank_state = blank_state \<and>
   input (fire lines_layout (press_enter False 0 3) ink_state) = []"
proof -
  have a: "trim (input blank_state) = []"
    by (simp add: blank_state_def js_def trim_def whitespace_def isWhiteSpace_def isLineTerminator_def)
  have c: "trim (input ink_state) \<noteq> []"
    by (simp add: ink_state_def js_def trim_def whitespace_def isWhiteSpace_def isLineTerminator_def)
  show ?thesis
    using a c plain_enter_never_breaks_line [of blank_state lines_layout 2 2]
      plain_enter_never_breaks_line [of ink_state lines_layout 0 3]
    by (simp del: fire.simps)
qed

end
